theory Spec2Isabelle
  imports Complex_Main "HOL-Library.Multiset" "HOL-Library.Word"
begin

section \<open>The radon notebooks: pooled and unpooled model\<close>

text \<open>
  The repository consists of two notebooks. Each one builds a Stan program as Python
  strings, builds a dictionary binding the program's declared inputs to arrays of the
  module \<^verbatim>\<open>clean_data\<close>, calls \<^verbatim>\<open>pystan.stan\<close>, and summarises the draws that come back.
  The definitions below follow the code cells in their order. The module \<^verbatim>\<open>clean_data\<close>,
  the sampler and the numeric libraries are not part of the two notebooks: the module's
  attributes are the fields of a record that every function takes as an argument, and the
  sampler and the library functions are records of functions that every function takes as
  an argument.
\<close>

subsection \<open>Python strings and the model text\<close>

definition newline :: char where
  "newline = CHR 0x0A"

text \<open>
  A triple-quoted literal whose text ends with a line break after every line:
  \<^verbatim>\<open>"""\ndata {\n ... }\n"""\<close> is the lines \<open>[], ''data {'', ..., ''}''\<close>, each followed
  by the line break.
\<close>

definition triple_quoted :: "string list \<Rightarrow> string" where
  "triple_quoted ls = concat (map (\<lambda>l. l @ [newline]) ls)"

definition pooled_data :: string where
  "pooled_data = triple_quoted
     [[],
      ''data {'',
      ''  int<lower=0> N;'',
      ''  vector[N] x;'',
      ''  vector[N] y;'',
      ''}'']"

definition pooled_parameters :: string where
  "pooled_parameters = triple_quoted
     [[],
      ''parameters {'',
      ''    vector[2] beta;'',
      ''    real<lower=0> sigma;'',
      ''}'']"

definition pooled_model :: string where
  "pooled_model = triple_quoted
     [[],
      ''model {'',
      ''  y ~ normal(beta[1] + beta[2] * x, sigma);'',
      ''}'']"

definition unpooled_data :: string where
  "unpooled_data = triple_quoted
     [[],
      ''data {'',
      ''  int<lower=0> N;'',
      ''  int<lower=1, upper=85> county[N];'',
      ''  vector[N] x;'',
      ''  vector[N] y;'',
      ''}'']"

definition unpooled_parameters :: string where
  "unpooled_parameters = triple_quoted
     [[],
      ''parameters {'',
      ''  vector[85] a;'',
      ''  real beta;'',
      ''  real<lower=0, upper=100> sigma;'',
      ''}'']"

definition unpooled_transformed_parameters :: string where
  "unpooled_transformed_parameters = triple_quoted
     [[],
      ''transformed parameters {'',
      ''  vector[N] y_hat;'',
      ''  '',
      ''  for (i in 1:N)'',
      ''    y_hat[i] <- beta * x[i] + a[county[i]];'',
      ''}'']"

definition unpooled_model :: string where
  "unpooled_model = triple_quoted
     [[],
      ''model {'',
      ''  y ~ normal(y_hat, sigma);'',
      ''}'']"

text \<open>
  The \<^verbatim>\<open>model_code\<close> argument of each call, as the call writes it: Python's \<^verbatim>\<open>+\<close> on
  strings is concatenation.
\<close>

definition pooled_model_code :: string where
  "pooled_model_code = pooled_data @ pooled_parameters @ pooled_model"

definition unpooled_model_code :: string where
  "unpooled_model_code =
     unpooled_data @ unpooled_parameters @ unpooled_transformed_parameters @ unpooled_model"

subsection \<open>Reading the model text\<close>

text \<open>
  Two readers of a Stan text, used to state what a text contains. \<open>split_at\<close> is Python's
  \<^verbatim>\<open>str.split\<close> with a one-character separator. A block opens on a line that ends with
  an opening brace. In a data block every line that ends with a semicolon is a
  declaration, and it declares the last word before the semicolon, without its array
  dimensions: \<^verbatim>\<open>int<lower=1, upper=85> county[N];\<close> declares \<^verbatim>\<open>county\<close>.
\<close>

fun split_at :: "'a \<Rightarrow> 'a list \<Rightarrow> 'a list list" where
  "split_at c [] = [[]]"
| "split_at c (x # xs) =
     (if x = c then [] # split_at c xs
      else (case split_at c xs of [] \<Rightarrow> [[x]] | w # ws \<Rightarrow> (x # w) # ws))"

definition block_headers :: "string \<Rightarrow> string list" where
  "block_headers code =
     filter (\<lambda>l. l \<noteq> [] \<and> last l = CHR ''{'') (split_at newline code)"

definition declared_names :: "string \<Rightarrow> string list" where
  "declared_names block =
     map (\<lambda>l. takeWhile (\<lambda>c. c \<noteq> CHR ''['') (last (split_at (CHR '' '') (butlast l))))
       (filter (\<lambda>l. l \<noteq> [] \<and> last l = CHR '';'') (split_at newline block))"

subsection \<open>The data provider and the data-binding dictionaries\<close>

text \<open>
  The attributes of \<^verbatim>\<open>clean_data\<close> that the notebooks read. The element types are those of
  the provider's arrays: \<open>'r\<close> for the measurements, which the notebooks pass on untouched,
  and \<open>'i\<close> for the county codes, to which the unpooled notebook adds one in the codes'
  own arithmetic.
\<close>

record ('i, 'r) clean_data =
  log_radon :: "'r list"
  floor_measure :: "'r list"
  county :: "'i list"
  mn_counties :: "string list"

datatype ('i, 'r) stan_value =
  Scalar int
| IntArray "'i list"
| RealArray "'r list"

type_synonym ('i, 'r) data_dict = "string \<rightharpoonup> ('i, 'r) stan_value"

definition pooled_data_dict :: "('i, 'r) clean_data \<Rightarrow> ('i, 'r) data_dict" where
  "pooled_data_dict cd =
     [''N'' \<mapsto> Scalar (int (length (log_radon cd))),
      ''x'' \<mapsto> RealArray (floor_measure cd),
      ''y'' \<mapsto> RealArray (log_radon cd)]"

definition unpooled_data_dict :: "('i::{plus,one}, 'r) clean_data \<Rightarrow> ('i, 'r) data_dict" where
  "unpooled_data_dict cd =
     [''N'' \<mapsto> Scalar (int (length (log_radon cd))),
      ''county'' \<mapsto> IntArray (map (\<lambda>c. c + 1) (county cd)),
      ''x'' \<mapsto> RealArray (floor_measure cd),
      ''y'' \<mapsto> RealArray (log_radon cd)]"

text \<open>The number of entries of a bound value: none for a scalar.\<close>

fun bound_length :: "('i, 'r) stan_value \<Rightarrow> nat option" where
  "bound_length (Scalar n) = None"
| "bound_length (IntArray cs) = Some (length cs)"
| "bound_length (RealArray xs) = Some (length xs)"

subsection \<open>The call of the sampler\<close>

record ('i, 'r) stan_args =
  model_code :: string
  data :: "('i, 'r) data_dict"
  iter :: int
  chains :: int

definition pooled_fit_args :: "('i, 'r) clean_data \<Rightarrow> ('i, 'r) stan_args" where
  "pooled_fit_args cd =
     \<lparr>model_code = pooled_model_code, data = pooled_data_dict cd, iter = 1000, chains = 2\<rparr>"

definition unpooled_fit_args :: "('i::{plus,one}, 'r) clean_data \<Rightarrow> ('i, 'r) stan_args" where
  "unpooled_fit_args cd =
     \<lparr>model_code = unpooled_model_code, data = unpooled_data_dict cd, iter = 1000, chains = 2\<rparr>"

subsection \<open>Exceptions\<close>

text \<open>
  The exceptions of a run: the three that the notebooks' own steps raise, and \<open>Raised x\<close>
  for whatever else is raised, \<open>x\<close> being the exception. A step returns \<open>Inl e\<close> when it
  raises \<open>e\<close>. No cell of the notebooks has a \<^verbatim>\<open>try\<close> statement, so the only way steps
  combine is \<open>and_then\<close>: the first exception ends the run and is its result.
\<close>

datatype 'x exn = ValueError | KeyError | NameError | Raised 'x

definition and_then :: "'e + 'a \<Rightarrow> ('a \<Rightarrow> 'e + 'b) \<Rightarrow> 'e + 'b" where
  "and_then m f = (case m of Inl e \<Rightarrow> Inl e | Inr v \<Rightarrow> f v)"

definition dict_getitem :: "('k \<rightharpoonup> 'v) \<Rightarrow> 'k \<Rightarrow> 'x exn + 'v" where
  "dict_getitem d k = (case d k of None \<Rightarrow> Inl KeyError | Some v \<Rightarrow> Inr v)"

text \<open>Reading a variable of the notebook that no cell has assigned yet.\<close>

definition name_lookup :: "'v option \<Rightarrow> 'x exn + 'v" where
  "name_lookup var = (case var of None \<Rightarrow> Inl NameError | Some v \<Rightarrow> Inr v)"

text \<open>\<^verbatim>\<open>b0, m0 = ...\<close>: unpacking into two names needs exactly two values.\<close>

fun unpack2 :: "'a list \<Rightarrow> 'x exn + 'a \<times> 'a" where
  "unpack2 [a, b] = Inr (a, b)"
| "unpack2 xs = Inl ValueError"

subsection \<open>Doubles\<close>

text \<open>
  The values that numpy and pandas hold are binary64 doubles: \<open>Nan\<close>, the two infinities,
  and the finite values, which are the numbers \<open>m * 2 ^ e\<close> for an integer \<open>m\<close> of magnitude
  below \<open>2 ^ 53\<close> and an exponent \<open>e\<close> from \<open>-1074\<close> to \<open>971\<close>. The type \<open>fin64\<close> holds the
  finite values, each once (the sign of zero is not kept). \<open>le64\<close> is the comparison
  \<^verbatim>\<open><=\<close> of doubles, false whenever a \<open>Nan\<close> takes part.
\<close>

definition binary64_values :: "real set" where
  "binary64_values =
     {r. \<exists>(m::int) (k::nat). \<bar>m\<bar> < 2 ^ 53 \<and>
           (k \<le> 971 \<and> r = of_int m * 2 ^ k \<or> k \<le> 1074 \<and> r = of_int m / 2 ^ k)}"

typedef fin64 = binary64_values
  unfolding binary64_values_def
  by (rule exI [of _ 0], rule CollectI, rule exI [of _ 0], rule exI [of _ 0]) simp

setup_lifting type_definition_fin64

lift_definition fin64_of_int :: "int \<Rightarrow> fin64" is
  "\<lambda>m. if \<bar>m\<bar> < 2 ^ 53 then of_int m else 0"
proof -
  fix m :: int
  show "(if \<bar>m\<bar> < 2 ^ 53 then of_int m else 0) \<in> binary64_values"
    unfolding binary64_values_def
    by (rule CollectI, rule exI [of _ "if \<bar>m\<bar> < 2 ^ 53 then m else 0"], rule exI [of _ 0])
      simp
qed

datatype double = Nan | NegInf | PosInf | Fin fin64

definition double_of_int :: "int \<Rightarrow> double" where
  "double_of_int n = Fin (fin64_of_int n)"

fun double_val :: "double \<Rightarrow> real option" where
  "double_val (Fin v) = Some (Rep_fin64 v)"
| "double_val d = None"

fun le64 :: "double \<Rightarrow> double \<Rightarrow> bool" where
  "le64 Nan b = False"
| "le64 a Nan = False"
| "le64 NegInf b = True"
| "le64 a PosInf = True"
| "le64 PosInf b = False"
| "le64 a NegInf = False"
| "le64 (Fin a) (Fin b) = (Rep_fin64 a \<le> Rep_fin64 b)"

subsection \<open>Arrays of draws\<close>

text \<open>
  A two-dimensional array with its shape, which an array keeps when it has no row. Every
  array of numpy is rectangular: \<open>well_shaped\<close>.
\<close>

record 'a ndarray =
  nrows :: nat
  ncols :: nat
  rows :: "'a list list"

definition well_shaped :: "'a ndarray \<Rightarrow> bool" where
  "well_shaped A \<longleftrightarrow> length (rows A) = nrows A \<and> list_all (\<lambda>r. length r = ncols A) (rows A)"

definition column :: "'a ndarray \<Rightarrow> nat \<Rightarrow> 'a list" where
  "column A j = map (\<lambda>r. r ! j) (rows A)"

text \<open>\<^verbatim>\<open>A.T\<close>, and a reduction along axis 1 (of each row) and along axis 0 (of each column).\<close>

definition T :: "'a ndarray \<Rightarrow> 'a ndarray" where
  "T A = \<lparr>nrows = ncols A, ncols = nrows A, rows = map (column A) [0..<ncols A]\<rparr>"

definition reduce_axis1 :: "('a list \<Rightarrow> 'b) \<Rightarrow> 'a ndarray \<Rightarrow> 'b list" where
  "reduce_axis1 f A = map f (rows A)"

definition reduce_axis0 :: "('a list \<Rightarrow> 'b) \<Rightarrow> 'a ndarray \<Rightarrow> 'b list" where
  "reduce_axis0 f A = map (\<lambda>j. f (column A j)) [0..<ncols A]"

subsection \<open>Series\<close>

text \<open>
  A \<^verbatim>\<open>pd.Series\<close> is its entries in order, each a label and a value. The constructor
  refuses values and labels of different lengths.
\<close>

type_synonym series = "(string \<times> double) list"

definition pd_Series :: "double list \<Rightarrow> string list \<Rightarrow> 'x exn + series" where
  "pd_Series vals index = (if length vals = length index then Inr (zip index vals) else Inl ValueError)"

definition series_index :: "series \<Rightarrow> string list" where
  "series_index s = map fst s"

definition series_values :: "series \<Rightarrow> double list" where
  "series_values s = map snd s"

text \<open>
  \<^verbatim>\<open>s[labels]\<close>: for each label in turn, the entries of \<open>s\<close> that carry it; a label that no
  entry carries is a \<^verbatim>\<open>KeyError\<close>.
\<close>

fun series_getitem :: "series \<Rightarrow> string list \<Rightarrow> 'x exn + series" where
  "series_getitem s [] = Inr []"
| "series_getitem s (l # ls) =
     (case filter (\<lambda>e. fst e = l) s of
        [] \<Rightarrow> Inl KeyError
      | d # ds \<Rightarrow> and_then (series_getitem s ls) (\<lambda>rest. Inr ((d # ds) @ rest)))"

subsection \<open>The library functions\<close>

text \<open>
  What the notebooks call of numpy and pandas beyond indexing: the reductions
  \<^verbatim>\<open>.mean\<close> and \<^verbatim>\<open>.std\<close> of the draws of one component, and \<^verbatim>\<open>sort_values()\<close>. How a
  reduction sums and rounds, and in which order \<^verbatim>\<open>sort_values()\<close> leaves entries of equal
  value, is the libraries' business: the three are the fields of a record that every
  cell takes as an argument.

  \<open>sorted_by_value s t\<close> is what pandas promises of \<open>t = s.sort_values()\<close>: the entries
  of \<open>s\<close>, each once, by ascending value, the \<open>Nan\<close> entries last.
\<close>

record libs =
  np_mean :: "double list \<Rightarrow> double"
  np_std :: "double list \<Rightarrow> double"
  pd_sort_values :: "series \<Rightarrow> series"

definition nan_last_le :: "double \<Rightarrow> double \<Rightarrow> bool" where
  "nan_last_le a b \<longleftrightarrow> b = Nan \<or> le64 a b"

definition sorted_by_value :: "series \<Rightarrow> series \<Rightarrow> bool" where
  "sorted_by_value s t \<longleftrightarrow>
     mset t = mset s \<and> sorted_wrt (\<lambda>d e. nan_last_le (snd d) (snd e)) t"

subsection \<open>The sampler\<close>

text \<open>
  What the notebooks use of pystan: the call \<^verbatim>\<open>pystan.stan(...)\<close>, which returns a fit
  \<open>'f\<close> or raises; \<^verbatim>\<open>fit.extract(permuted=True)\<close>, a dictionary from parameter names to
  arrays of draws; and \<^verbatim>\<open>fit[name]\<close>, the array of draws of one parameter.
\<close>

record ('i, 'r, 'x, 'f) engine =
  stan :: "('i, 'r) stan_args \<Rightarrow> 'x exn + 'f"
  extract_permuted :: "'f \<Rightarrow> 'x exn + (string \<rightharpoonup> double ndarray)"
  fit_getitem :: "'f \<Rightarrow> string \<Rightarrow> 'x exn + double ndarray"

subsection \<open>The pooled notebook\<close>

text \<open>
  The variables of the pooled notebook from the extraction of the sample on: \<open>None\<close> is a
  variable that no cell has assigned yet. \<open>pooled_means\<close> is the cell
  \<^verbatim>\<open>b0, m0 = pooled_sample['beta'].T.mean(1)\<close>.
\<close>

record pooled_namespace =
  pooled_sample :: "string \<rightharpoonup> double ndarray"
  b0 :: "double option"
  m0 :: "double option"

definition pooled_means :: "libs \<Rightarrow> pooled_namespace \<Rightarrow> 'x exn + pooled_namespace" where
  "pooled_means lib ns =
     and_then (dict_getitem (pooled_sample ns) ''beta'') (\<lambda>beta.
     and_then (unpack2 (reduce_axis1 (np_mean lib) (T beta))) (\<lambda>(b, m).
     Inr (ns\<lparr>b0 := Some b, m0 := Some m\<rparr>)))"

definition pooled_notebook ::
  "libs \<Rightarrow> ('i, 'r, 'x, 'f) engine \<Rightarrow> ('i, 'r) clean_data \<Rightarrow> 'x exn + pooled_namespace" where
  "pooled_notebook lib eng cd =
     and_then (stan eng (pooled_fit_args cd)) (\<lambda>pooled_fit.
     and_then (extract_permuted eng pooled_fit) (\<lambda>sample.
     pooled_means lib \<lparr>pooled_sample = sample, b0 = None, m0 = None\<rparr>))"

subsection \<open>The unpooled notebook\<close>

text \<open>
  \<open>county_estimates\<close> is the cell that assigns \<^verbatim>\<open>unpooled_estimates\<close> and
  \<^verbatim>\<open>unpooled_se\<close>; \<open>county_order\<close> is the plotting cell up to the values it hands to the
  plot: it assigns \<^verbatim>\<open>order\<close> and pairs the position on the horizontal axis with the
  estimate and the standard error found under each label of \<^verbatim>\<open>order\<close>.
\<close>

record 'f unpooled_namespace =
  unpooled_fit :: 'f
  unpooled_estimates :: "series option"
  unpooled_se :: "series option"
  order :: "string list option"

definition county_estimates ::
  "libs \<Rightarrow> ('i, 'r, 'x, 'f) engine \<Rightarrow> ('i, 'r) clean_data \<Rightarrow> 'f unpooled_namespace \<Rightarrow>
     'x exn + 'f unpooled_namespace" where
  "county_estimates lib eng cd ns =
     and_then (fit_getitem eng (unpooled_fit ns) ''a'') (\<lambda>a.
     and_then (pd_Series (reduce_axis0 (np_mean lib) a) (mn_counties cd)) (\<lambda>est.
     and_then (fit_getitem eng (unpooled_fit ns) ''a'') (\<lambda>a'.
     and_then (pd_Series (reduce_axis0 (np_std lib) a') (mn_counties cd)) (\<lambda>se.
     Inr (ns\<lparr>unpooled_estimates := Some est, unpooled_se := Some se\<rparr>)))))"

definition county_order ::
  "libs \<Rightarrow> 'f unpooled_namespace \<Rightarrow>
     'x exn + 'f unpooled_namespace \<times> (nat \<times> double \<times> double) list" where
  "county_order lib ns =
     and_then (name_lookup (unpooled_estimates ns)) (\<lambda>est.
     let ord = series_index (pd_sort_values lib est) in
     and_then (series_getitem est ord) (\<lambda>ms.
     and_then (name_lookup (unpooled_se ns)) (\<lambda>se.
     and_then (series_getitem se ord) (\<lambda>ses.
     Inr (ns\<lparr>order := Some ord\<rparr>,
          zip [0..<length est] (zip (series_values ms) (series_values ses)))))))"

definition unpooled_notebook ::
  "libs \<Rightarrow> ('i::{plus,one}, 'r, 'x, 'f) engine \<Rightarrow> ('i, 'r) clean_data \<Rightarrow>
     'x exn + 'f unpooled_namespace \<times> (nat \<times> double \<times> double) list" where
  "unpooled_notebook lib eng cd =
     and_then (stan eng (unpooled_fit_args cd)) (\<lambda>fit.
     and_then (county_estimates lib eng cd
        \<lparr>unpooled_fit = fit, unpooled_estimates = None, unpooled_se = None, order = None\<rparr>)
       (county_order lib))"

subsection \<open>The transformed parameters of the unpooled model\<close>

text \<open>
  The Stan block
  \<^verbatim>\<open>vector[N] y_hat; for (i in 1:N) y_hat[i] <- beta * x[i] + a[county[i]];\<close>
  as a loop over a vector that starts out as \<open>NaN\<close> in every place. Stan counts from one
  and refuses an index outside a container. A real of the block is a \<open>float64\<close>: a real
  number or \<open>NaN\<close>, with the arithmetic \<open>fmul\<close> and \<open>fadd\<close>; rounding and the
  infinities are outside this part of the model. The data of the block, \<^verbatim>\<open>county\<close>, is
  written \<open>county'\<close> here, apart from the attribute of the data provider.
\<close>

datatype float64 = NaN | Finite real

datatype stan_error = IndexOutOfRange

definition stan_index :: "'a list \<Rightarrow> int \<Rightarrow> stan_error + 'a" where
  "stan_index xs i =
     (if 1 \<le> i \<and> i \<le> int (length xs) then Inr (xs ! nat (i - 1)) else Inl IndexOutOfRange)"

definition stan_assign :: "'a list \<Rightarrow> int \<Rightarrow> 'a \<Rightarrow> stan_error + 'a list" where
  "stan_assign xs i v =
     (if 1 \<le> i \<and> i \<le> int (length xs) then Inr (xs[nat (i - 1) := v]) else Inl IndexOutOfRange)"

fun fadd :: "float64 \<Rightarrow> float64 \<Rightarrow> float64" where
  "fadd (Finite a) (Finite b) = Finite (a + b)"
| "fadd a b = NaN"

fun fmul :: "float64 \<Rightarrow> float64 \<Rightarrow> float64" where
  "fmul (Finite a) (Finite b) = Finite (a * b)"
| "fmul a b = NaN"

fun for_each :: "'k list \<Rightarrow> ('k \<Rightarrow> 's \<Rightarrow> 'e + 's) \<Rightarrow> 's \<Rightarrow> 'e + 's" where
  "for_each [] body s = Inr s"
| "for_each (i # is) body s = and_then (body i s) (for_each is body)"

definition y_hat_step ::
  "float64 \<Rightarrow> float64 list \<Rightarrow> float64 list \<Rightarrow> int list \<Rightarrow> int \<Rightarrow> float64 list \<Rightarrow>
     stan_error + float64 list" where
  "y_hat_step beta x a county' i y_hat =
     and_then (stan_index x i) (\<lambda>xi.
     and_then (stan_index county' i) (\<lambda>ci.
     and_then (stan_index a ci) (\<lambda>aci.
     stan_assign y_hat i (fadd (fmul beta xi) aci))))"

definition transformed_parameters ::
  "int \<Rightarrow> float64 \<Rightarrow> float64 list \<Rightarrow> float64 list \<Rightarrow> int list \<Rightarrow> stan_error + float64 list" where
  "transformed_parameters N beta x a county' =
     for_each [1..N] (y_hat_step beta x a county') (replicate (nat N) NaN)"


subsection \<open>Small inputs\<close>

text \<open>Two households in two counties, the first and the last of the 85 county codes.\<close>

definition example_clean_data :: "(int, real) clean_data" where
  "example_clean_data =
     \<lparr>log_radon = [0.8, 1.5], floor_measure = [1, 0], county = [0, 84],
      mn_counties = [''AITKIN'', ''YELLOW MEDICINE'']\<rparr>"

text \<open>
  Two draws of two components, and a sampler that hands them out under every name the
  notebooks ask for; a sampler whose call raises.
\<close>

definition example_draws :: "double ndarray" where
  "example_draws =
     \<lparr>nrows = 2, ncols = 2,
      rows = [[double_of_int 3, double_of_int 1], [double_of_int 5, double_of_int 1]]\<rparr>"

definition example_engine :: "(int, real, string, unit) engine" where
  "example_engine =
     \<lparr>stan = (\<lambda>args. Inr ()),
      extract_permuted = (\<lambda>fit. Inr [''beta'' \<mapsto> example_draws]),
      fit_getitem = (\<lambda>fit name. if name = ''a'' then Inr example_draws else Inl KeyError)\<rparr>"

definition failing_engine :: "(int, real, string, unit) engine" where
  "failing_engine =
     \<lparr>stan = (\<lambda>args. Inl (Raised ''RuntimeError'')),
      extract_permuted = (\<lambda>fit. Inr [''beta'' \<mapsto> example_draws]),
      fit_getitem = (\<lambda>fit name. if name = ''a'' then Inr example_draws else Inl KeyError)\<rparr>"

text \<open>
  Library functions for the small inputs. The reductions are known at the two columns of
  \<open>example_draws\<close>, where numpy's answers are exact: the draws 3 and 5 have mean 4 and
  standard deviation 1, the draws 1 and 1 have mean 1 and standard deviation 0. The sort
  is by insertion, one of the orders that \<open>sorted_by_value\<close> allows.
\<close>

fun insert_entry :: "string \<times> double \<Rightarrow> series \<Rightarrow> series" where
  "insert_entry e [] = [e]"
| "insert_entry e (d # ds) =
     (if nan_last_le (snd e) (snd d) then e # d # ds else d # insert_entry e ds)"

definition insertion_sort :: "series \<Rightarrow> series" where
  "insertion_sort s = foldr insert_entry s []"

definition example_mean :: "double list \<Rightarrow> double" where
  "example_mean xs =
     (if map double_val xs = [Some 3, Some 5] then double_of_int 4
      else if map double_val xs = [Some 1, Some 1] then double_of_int 1
      else Nan)"

definition example_std :: "double list \<Rightarrow> double" where
  "example_std xs =
     (if map double_val xs = [Some 3, Some 5] then double_of_int 1
      else if map double_val xs = [Some 1, Some 1] then double_of_int 0
      else Nan)"

definition example_libs :: libs where
  "example_libs =
     \<lparr>np_mean = example_mean, np_std = example_std, pd_sort_values = insertion_sort\<rparr>"

definition example_pooled_namespace :: pooled_namespace where
  "example_pooled_namespace =
     \<lparr>pooled_sample = [''beta'' \<mapsto> example_draws], b0 = None, m0 = None\<rparr>"

definition example_unpooled_namespace :: "unit unpooled_namespace" where
  "example_unpooled_namespace =
     \<lparr>unpooled_fit = (), unpooled_estimates = None, unpooled_se = None, order = None\<rparr>"

definition example_estimates :: series where
  "example_estimates =
     [(''AITKIN'', double_of_int 4), (''YELLOW MEDICINE'', double_of_int 1)]"

definition example_se :: series where
  "example_se = [(''AITKIN'', double_of_int 1), (''YELLOW MEDICINE'', double_of_int 0)]"

text \<open>
  Three draws of \<^verbatim>\<open>beta\<close> whose first component is 1, 2 and 4, and the arithmetic mean of
  a sequence of numbers as the words have it: the sum divided by the count.
\<close>

definition draws_124 :: "double ndarray" where
  "draws_124 =
     \<lparr>nrows = 3, ncols = 2,
      rows = [[double_of_int 1, double_of_int 0], [double_of_int 2, double_of_int 0],
              [double_of_int 4, double_of_int 0]]\<rparr>"

definition arithmetic_mean :: "real list \<Rightarrow> real" where
  "arithmetic_mean rs = sum_list rs / real (length rs)"

text \<open>
  Estimates over county names of which one comes twice, and estimates of which one is
  \<open>Nan\<close>.
\<close>

definition repeated_name_estimates :: series where
  "repeated_name_estimates =
     [(''AITKIN'', double_of_int 3), (''ANOKA'', double_of_int 1), (''AITKIN'', double_of_int 2)]"

definition nan_estimates :: series where
  "nan_estimates = [(''AITKIN'', Nan), (''ANOKA'', double_of_int 1)]"

section \<open>The model text\<close>

lemma pooled_headers:
  "block_headers pooled_model_code = [''data {'', ''parameters {'', ''model {'']"
  by code_simp

lemma unpooled_headers:
  "block_headers unpooled_model_code =
     [''data {'', ''parameters {'', ''transformed parameters {'', ''model {'']"
  by code_simp

text \<open>
  Claim C1, as stated: in every notebook the text passed to the sampler is the
  concatenation of exactly three fragments, a data block, a parameters block and a model
  block. The unpooled notebook does not do this: its text differs from the concatenation
  of its data, parameters and model fragments, and it opens four blocks, not three.
\<close>

theorem unpooled_model_code_counterexample:
  "unpooled_model_code \<noteq> unpooled_data @ unpooled_parameters @ unpooled_model \<and>
   length (block_headers unpooled_model_code) \<noteq> 3"
  by (simp add: unpooled_headers)
     (simp add: unpooled_model_code_def unpooled_transformed_parameters_def unpooled_model_def
        triple_quoted_def)

text \<open>
  Claim C1, amended: the text passed to the sampler is a concatenation of fixed fragments,
  each a constant of the notebook. In the pooled notebook they are three (data,
  parameters, model) and the text opens exactly these three blocks; in the unpooled
  notebook they are four (data, parameters, transformed parameters, model) and the text
  opens exactly these four blocks. Neither text depends on the data provider.
\<close>

theorem model_code_fragments:
  "model_code (pooled_fit_args cd) = pooled_data @ pooled_parameters @ pooled_model \<and>
   block_headers (model_code (pooled_fit_args cd)) =
     [''data {'', ''parameters {'', ''model {''] \<and>
   model_code (unpooled_fit_args cd') =
     unpooled_data @ unpooled_parameters @ unpooled_transformed_parameters @ unpooled_model \<and>
   block_headers (model_code (unpooled_fit_args cd')) =
     [''data {'', ''parameters {'', ''transformed parameters {'', ''model {'']"
  by (simp add: pooled_fit_args_def unpooled_fit_args_def pooled_headers unpooled_headers)
     (simp add: pooled_model_code_def unpooled_model_code_def)

section \<open>The data-binding dictionaries\<close>

text \<open>
  Claim C2: for every row of the observation table, the county index bound under
  \<^verbatim>\<open>county\<close> is the provider's county code of that row plus one. The sum is the one of
  the codes' own type, whatever that type is.
\<close>

theorem county_offset:
  "\<exists>cs. unpooled_data_dict cd ''county'' = Some (IntArray cs) \<and>
        length cs = length (county cd) \<and>
        (\<forall>row < length (county cd). cs ! row = county cd ! row + 1)"
  by (simp add: unpooled_data_dict_def)

theorem county_offset_witness:
  "\<exists>cs. unpooled_data_dict example_clean_data ''county'' = Some (IntArray cs) \<and>
        length cs = 2 \<and> cs ! 0 = 1 \<and> cs ! 1 = 85"
  using county_offset [of example_clean_data]
  by (auto simp: example_clean_data_def less_Suc_eq)

text \<open>
  Claim C3: when every county code of the provider lies in 0..84, every county index
  bound for the sampler lies in 1..85, the range that the data block of the text passed
  to the sampler declares for \<^verbatim>\<open>county\<close>.
\<close>

theorem county_in_declared_range:
  fixes cd :: "(int, 'r) clean_data"
  assumes "\<forall>c \<in> set (county cd). 0 \<le> c \<and> c \<le> 84"
  shows "\<exists>cs. data (unpooled_fit_args cd) ''county'' = Some (IntArray cs) \<and>
              length cs = length (county cd) \<and>
              (\<forall>c \<in> set cs. 1 \<le> c \<and> c \<le> 85) \<and>
              ''  int<lower=1, upper=85> county[N];''
                \<in> set (split_at newline (model_code (unpooled_fit_args cd)))"
proof -
  have "''  int<lower=1, upper=85> county[N];'' \<in> set (split_at newline unpooled_model_code)"
    by code_simp
  with assms show ?thesis
    by (auto simp: unpooled_fit_args_def unpooled_data_dict_def)
qed

theorem county_in_declared_range_witness:
  "county example_clean_data = [0, 84] \<and>
   (\<exists>cs. data (unpooled_fit_args example_clean_data) ''county'' = Some (IntArray cs) \<and>
         cs = [1, 85])"
  using county_in_declared_range [of example_clean_data]
  by (simp add: example_clean_data_def unpooled_fit_args_def unpooled_data_dict_def)

text \<open>
  The same for codes held in 64-bit signed integers, numpy's default integer: in the
  range 0..84 adding one does not wrap.
\<close>

lemma int64_offset_no_wrap:
  fixes c :: "64 word"
  assumes "0 \<le>s c" and "c \<le>s 84"
  shows "sint (c + 1) = sint c + 1 \<and> 1 \<le>s c + 1 \<and> c + 1 \<le>s 85"
proof -
  have b: "0 \<le> sint c" "sint c \<le> 84"
    using assms by (simp_all add: word_sle_eq)
  have "sint (c + 1) = signed_take_bit 63 (sint c + 1)"
    by (simp add: sint_word_ariths)
  also have "\<dots> = sint c + 1"
    using b by (intro signed_take_bit_int_eq_self) auto
  finally have "sint (c + 1) = sint c + 1" .
  then show ?thesis
    using b by (simp add: word_sle_eq)
qed

lemma int64_county_in_range:
  fixes cd :: "(64 word, 'r) clean_data"
  assumes "\<forall>c \<in> set (county cd). 0 \<le>s c \<and> c \<le>s 84"
  shows "\<exists>cs. unpooled_data_dict cd ''county'' = Some (IntArray cs) \<and>
              (\<forall>c \<in> set cs. 1 \<le>s c \<and> c \<le>s 85)"
  using assms by (auto simp: unpooled_data_dict_def int64_offset_no_wrap)

text \<open>
  Claim C4: when the provider's three arrays have the same length, each dictionary binds
  \<^verbatim>\<open>x\<close> and \<^verbatim>\<open>y\<close> (and the unpooled one \<^verbatim>\<open>county\<close>) to arrays and \<^verbatim>\<open>N\<close> to a scalar,
  and the scalar under \<^verbatim>\<open>N\<close> is the length of each of these arrays; no entry of either
  dictionary is an array of another length.
\<close>

theorem bound_lengths:
  fixes cd :: "('i::{plus,one}, 'r) clean_data"
  assumes "length (floor_measure cd) = length (log_radon cd)"
      and "length (county cd) = length (log_radon cd)"
  shows "(\<exists>n xs ys. pooled_data_dict cd ''N'' = Some (Scalar n) \<and>
            pooled_data_dict cd ''x'' = Some (RealArray xs) \<and>
            pooled_data_dict cd ''y'' = Some (RealArray ys) \<and>
            n = int (length xs) \<and> n = int (length ys)) \<and>
         (\<forall>k v len. pooled_data_dict cd k = Some v \<and> bound_length v = Some len \<longrightarrow>
            pooled_data_dict cd ''N'' = Some (Scalar (int len))) \<and>
         (\<exists>n cs xs ys. unpooled_data_dict cd ''N'' = Some (Scalar n) \<and>
            unpooled_data_dict cd ''county'' = Some (IntArray cs) \<and>
            unpooled_data_dict cd ''x'' = Some (RealArray xs) \<and>
            unpooled_data_dict cd ''y'' = Some (RealArray ys) \<and>
            n = int (length cs) \<and> n = int (length xs) \<and> n = int (length ys)) \<and>
         (\<forall>k v len. unpooled_data_dict cd k = Some v \<and> bound_length v = Some len \<longrightarrow>
            unpooled_data_dict cd ''N'' = Some (Scalar (int len)))"
proof (intro conjI)
  show "\<exists>n xs ys. pooled_data_dict cd ''N'' = Some (Scalar n) \<and>
            pooled_data_dict cd ''x'' = Some (RealArray xs) \<and>
            pooled_data_dict cd ''y'' = Some (RealArray ys) \<and>
            n = int (length xs) \<and> n = int (length ys)"
    using assms by (simp add: pooled_data_dict_def)
  show "\<exists>n cs xs ys. unpooled_data_dict cd ''N'' = Some (Scalar n) \<and>
            unpooled_data_dict cd ''county'' = Some (IntArray cs) \<and>
            unpooled_data_dict cd ''x'' = Some (RealArray xs) \<and>
            unpooled_data_dict cd ''y'' = Some (RealArray ys) \<and>
            n = int (length cs) \<and> n = int (length xs) \<and> n = int (length ys)"
    using assms by (simp add: unpooled_data_dict_def)
  show "\<forall>k v len. pooled_data_dict cd k = Some v \<and> bound_length v = Some len \<longrightarrow>
            pooled_data_dict cd ''N'' = Some (Scalar (int len))"
    using assms by (auto simp: pooled_data_dict_def split: if_splits)
  show "\<forall>k v len. unpooled_data_dict cd k = Some v \<and> bound_length v = Some len \<longrightarrow>
            unpooled_data_dict cd ''N'' = Some (Scalar (int len))"
    using assms by (auto simp: unpooled_data_dict_def split: if_splits)
qed

theorem bound_lengths_witness:
  "length (floor_measure example_clean_data) = length (log_radon example_clean_data) \<and>
   length (county example_clean_data) = length (log_radon example_clean_data) \<and>
   pooled_data_dict example_clean_data ''N'' = Some (Scalar 2) \<and>
   pooled_data_dict example_clean_data ''x'' = Some (RealArray [1, 0]) \<and>
   pooled_data_dict example_clean_data ''y'' = Some (RealArray [0.8, 1.5]) \<and>
   unpooled_data_dict example_clean_data ''N'' = Some (Scalar 2) \<and>
   unpooled_data_dict example_clean_data ''county'' = Some (IntArray [1, 85]) \<and>
   unpooled_data_dict example_clean_data ''x'' = Some (RealArray [1, 0]) \<and>
   unpooled_data_dict example_clean_data ''y'' = Some (RealArray [0.8, 1.5]) \<and>
   bound_length (IntArray [1, 85 :: int] :: (int, real) stan_value) = Some 2"
  using bound_lengths [of example_clean_data]
  by (simp add: example_clean_data_def pooled_data_dict_def unpooled_data_dict_def)

text \<open>
  Claim C5: the names under which the dictionary passed to the sampler has an entry are
  exactly the names that the data block declares: \<^verbatim>\<open>N\<close>, \<^verbatim>\<open>x\<close>, \<^verbatim>\<open>y\<close> in the pooled
  notebook and \<^verbatim>\<open>N\<close>, \<^verbatim>\<open>county\<close>, \<^verbatim>\<open>x\<close>, \<^verbatim>\<open>y\<close> in the unpooled one.
\<close>

theorem bound_names:
  "declared_names pooled_data = [''N'', ''x'', ''y''] \<and>
   dom (data (pooled_fit_args cd)) = set (declared_names pooled_data) \<and>
   declared_names unpooled_data = [''N'', ''county'', ''x'', ''y''] \<and>
   dom (data (unpooled_fit_args cd')) = set (declared_names unpooled_data)"
proof -
  have 1: "declared_names pooled_data = [''N'', ''x'', ''y'']"
    by code_simp
  have 2: "declared_names unpooled_data = [''N'', ''county'', ''x'', ''y'']"
    by code_simp
  show ?thesis
    unfolding 1 2
    by (auto simp: pooled_fit_args_def unpooled_fit_args_def pooled_data_dict_def
        unpooled_data_dict_def)
qed

section \<open>Steps and exceptions\<close>

lemma and_then_simps [simp]:
  "and_then (Inl e) f = Inl e"
  "and_then (Inr v) f = f v"
  by (simp_all add: and_then_def)

lemma and_then_Inl_iff:
  "and_then m f = Inl e \<longleftrightarrow> m = Inl e \<or> (\<exists>v. m = Inr v \<and> f v = Inl e)"
  by (cases m) simp_all

lemma and_then_Inr_iff:
  "and_then m f = Inr r \<longleftrightarrow> (\<exists>v. m = Inr v \<and> f v = Inr r)"
  by (cases m) simp_all

section \<open>Summaries of the draws\<close>

lemma double_val_of_int:
  "\<bar>n\<bar> < 2 ^ 53 \<Longrightarrow> double_val (double_of_int n) = Some (of_int n)"
  by (simp add: double_of_int_def fin64_of_int.rep_eq)

text \<open>The rows of the transpose of an array of two columns are these two columns.\<close>

lemma T_two_columns:
  assumes "ncols beta = 2"
  shows "reduce_axis1 f (T beta) = [f (column beta 0), f (column beta 1)]"
proof -
  have "[0..<ncols beta] = [0, 1]"
    using assms by (simp add: upt_rec)
  then show ?thesis
    by (simp add: reduce_axis1_def T_def)
qed

lemma pooled_means_columns:
  assumes "ncols beta = 2" and "pooled_sample ns ''beta'' = Some beta"
  shows "pooled_means lib ns =
     Inr (ns\<lparr>b0 := Some (np_mean lib (column beta 0)),
             m0 := Some (np_mean lib (column beta 1))\<rparr>)"
  using assms by (simp add: pooled_means_def dict_getitem_def T_two_columns)

lemma county_estimates_columns:
  assumes "ncols a = length (mn_counties cd)"
      and "fit_getitem eng (unpooled_fit uns) ''a'' = Inr a"
  shows "county_estimates lib eng cd uns =
     Inr (uns\<lparr>unpooled_estimates :=
                Some (zip (mn_counties cd) (reduce_axis0 (np_mean lib) a)),
              unpooled_se := Some (zip (mn_counties cd) (reduce_axis0 (np_std lib) a))\<rparr>)"
  using assms by (simp add: county_estimates_def pd_Series_def reduce_axis0_def)

lemma zip_reduce_axis0_nth:
  assumes "ncols a = length names" and "j < ncols a"
  shows "zip names (reduce_axis0 f a) ! j = (names ! j, f (column a j))"
  using assms by (simp add: reduce_axis0_def)

lemma example_columns:
  "column example_draws 0 = [double_of_int 3, double_of_int 5]"
  "column example_draws 1 = [double_of_int 1, double_of_int 1]"
  "column example_draws (Suc 0) = [double_of_int 1, double_of_int 1]"
  by (simp_all add: column_def example_draws_def)

lemma example_means:
  "np_mean example_libs [double_of_int 3, double_of_int 5] = double_of_int 4"
  "np_mean example_libs [double_of_int 1, double_of_int 1] = double_of_int 1"
  "np_std example_libs [double_of_int 3, double_of_int 5] = double_of_int 1"
  "np_std example_libs [double_of_int 1, double_of_int 1] = double_of_int 0"
  by (simp_all add: example_libs_def example_mean_def example_std_def double_val_of_int)

lemma example_pooled_means:
  "pooled_means example_libs example_pooled_namespace =
     Inr (example_pooled_namespace
            \<lparr>b0 := Some (double_of_int 4), m0 := Some (double_of_int 1)\<rparr>)"
proof -
  have "pooled_means example_libs example_pooled_namespace =
      Inr (example_pooled_namespace
             \<lparr>b0 := Some (np_mean example_libs (column example_draws 0)),
              m0 := Some (np_mean example_libs (column example_draws 1))\<rparr>)"
    by (rule pooled_means_columns) (simp_all add: example_pooled_namespace_def example_draws_def)
  then show ?thesis
    by (simp add: example_columns example_means)
qed

lemma example_county_estimates:
  "county_estimates example_libs example_engine example_clean_data example_unpooled_namespace =
     Inr (example_unpooled_namespace
            \<lparr>unpooled_estimates := Some example_estimates, unpooled_se := Some example_se\<rparr>)"
proof -
  have "reduce_axis0 f example_draws = [f (column example_draws 0), f (column example_draws 1)]"
    for f :: "double list \<Rightarrow> double"
    by (simp add: reduce_axis0_def example_draws_def upt_rec)
  then have "reduce_axis0 (np_mean example_libs) example_draws
        = [double_of_int 4, double_of_int 1]"
    and "reduce_axis0 (np_std example_libs) example_draws = [double_of_int 1, double_of_int 0]"
    by (simp_all add: example_columns example_means)
  moreover have
    "county_estimates example_libs example_engine example_clean_data example_unpooled_namespace =
      Inr (example_unpooled_namespace
            \<lparr>unpooled_estimates :=
               Some (zip (mn_counties example_clean_data)
                       (reduce_axis0 (np_mean example_libs) example_draws)),
             unpooled_se :=
               Some (zip (mn_counties example_clean_data)
                       (reduce_axis0 (np_std example_libs) example_draws))\<rparr>)"
    by (rule county_estimates_columns)
      (simp_all add: example_engine_def example_draws_def example_clean_data_def)
  ultimately show ?thesis
    by (simp add: example_clean_data_def example_estimates_def example_se_def)
qed

text \<open>No double is seven thirds.\<close>

lemma pow2_mod3: "(2::int) ^ k mod 3 = 1 \<or> (2::int) ^ k mod 3 = 2"
proof (induction k)
  case 0
  show ?case by simp
next
  case (Suc k)
  have "(2::int) ^ Suc k mod 3 = (2 * (2 ^ k mod 3)) mod 3"
    by (simp add: mod_mult_right_eq)
  with Suc show ?case by auto
qed

lemma seven_thirds_not_binary64: "(7 / 3 :: real) \<notin> binary64_values"
proof
  assume "(7 / 3 :: real) \<in> binary64_values"
  then obtain m :: int and k :: nat
    where "7 / 3 = real_of_int m * 2 ^ k \<or> 7 / 3 = real_of_int m / 2 ^ k"
    unfolding binary64_values_def by auto
  then show False
  proof
    assume "7 / 3 = real_of_int m * 2 ^ k"
    then have "real_of_int 7 = real_of_int (3 * (m * 2 ^ k))"
      by simp
    then have "7 = 3 * (m * 2 ^ k)"
      by (simp only: of_int_eq_iff)
    then have "(7::int) mod 3 = (3 * (m * 2 ^ k)) mod 3"
      by simp
    then show False
      by simp
  next
    assume "7 / 3 = real_of_int m / 2 ^ k"
    then have "real_of_int (7 * 2 ^ k) = real_of_int (3 * m)"
      by (simp add: field_simps)
    then have "7 * 2 ^ k = 3 * m"
      by (simp only: of_int_eq_iff)
    then have "(7 * 2 ^ k) mod 3 = (3 * m) mod 3"
      by (rule arg_cong)
    then have "(7 * (2::int) ^ k) mod 3 = 0"
      by simp
    moreover have "(7 * x) mod 3 = x mod 3" for x :: int
      by presburger
    ultimately have "(2::int) ^ k mod 3 = 0"
      by metis
    then show False
      using pow2_mod3 [of k] by simp
  qed
qed

lemma double_val_binary64: "double_val v = Some r \<Longrightarrow> r \<in> binary64_values"
  using Rep_fin64 by (cases v) auto




section \<open>Exceptions\<close>



section \<open>The transformed parameters\<close>

lemma for_each_append:
  "for_each (is @ js) body s = and_then (for_each is body s) (for_each js body)"
proof (induction "is" arbitrary: s)
  case Nil
  show ?case by simp
next
  case (Cons i "is")
  show ?case
    by (cases "body i s") (simp_all add: Cons.IH)
qed

lemma upto_Suc: "[1..int (Suc n)] = [1..int n] @ [int n + 1]"
  by (simp add: upto_rec2)

text \<open>One pass of the loop body, at an index inside every container it reads.\<close>

lemma y_hat_step_in_range:
  assumes "k < length x" and "k < length cty" and "k < length yh"
      and "1 \<le> cty ! k" and "cty ! k \<le> int (length a)"
  shows "y_hat_step beta x a cty (int k + 1) yh =
     Inr (yh[k := fadd (fmul beta (x ! k)) (a ! nat (cty ! k - 1))])"
  using assms by (simp add: y_hat_step_def stan_index_def stan_assign_def)

text \<open>
  The loop invariant: after the passes for 1 to \<open>m\<close> the first \<open>m\<close> places hold their
  values and the others are still \<open>NaN\<close>.
\<close>

lemma y_hat_loop:
  assumes "length x = n" and "length cty = n"
      and "\<forall>c \<in> set cty. 1 \<le> c \<and> c \<le> int (length a)"
  shows "m \<le> n \<Longrightarrow>
         for_each [1..int m] (y_hat_step beta x a cty) (replicate n NaN) =
           Inr (map (\<lambda>k. fadd (fmul beta (x ! k)) (a ! nat (cty ! k - 1))) [0..<m]
                @ replicate (n - m) NaN)"
proof (induction m)
  case 0
  show ?case by simp
next
  case (Suc m)
  let ?v = "\<lambda>k. fadd (fmul beta (x ! k)) (a ! nat (cty ! k - 1))"
  let ?yh = "map ?v [0..<m] @ replicate (n - m) NaN"
  from Suc.prems have m: "m < n" by simp
  have c: "1 \<le> cty ! m" "cty ! m \<le> int (length a)"
    using assms m by simp_all
  have "y_hat_step beta x a cty (int m + 1) ?yh = Inr (?yh[m := ?v m])"
    using assms m c by (intro y_hat_step_in_range) simp_all
  moreover have "?yh[m := ?v m] = map ?v [0..<Suc m] @ replicate (n - Suc m) NaN"
  proof -
    have "n - m = Suc (n - Suc m)"
      using m by simp
    then show ?thesis
      by (simp add: list_update_append)
  qed
  ultimately have step: "y_hat_step beta x a cty (int m + 1) ?yh =
      Inr (map ?v [0..<Suc m] @ replicate (n - Suc m) NaN)"
    by simp
  have "for_each [1..int (Suc m)] (y_hat_step beta x a cty) (replicate n NaN) =
      and_then (for_each [1..int m] (y_hat_step beta x a cty) (replicate n NaN))
        (for_each [int m + 1] (y_hat_step beta x a cty))"
    by (simp only: upto_Suc for_each_append)
  also have "\<dots> = for_each [int m + 1] (y_hat_step beta x a cty) ?yh"
    using Suc.IH m by simp
  also have "\<dots> = Inr (map ?v [0..<Suc m] @ replicate (n - Suc m) NaN)"
    by (simp add: step del: upt_Suc)
  finally show ?case .
qed

text \<open>
  Claim C9: with \<^verbatim>\<open>x\<close> and \<^verbatim>\<open>county\<close> of length \<^verbatim>\<open>N\<close> and every county index inside \<^verbatim>\<open>a\<close>,
  as the data and parameters blocks declare them, the block runs to its end and leaves,
  for every \<open>i\<close> from 1 to \<^verbatim>\<open>N\<close>, \<^verbatim>\<open>y_hat[i] = beta * x[i] + a[county[i]]\<close>: the slope
  \<^verbatim>\<open>beta\<close> times the floor covariate of household \<open>i\<close>, plus the intercept that the county
  index of household \<open>i\<close> selects.
\<close>

theorem y_hat_is_affine:
  assumes "0 \<le> N" and "length x = nat N" and "length county' = nat N"
      and "\<forall>c \<in> set county'. 1 \<le> c \<and> c \<le> int (length a)"
  shows "\<exists>y_hat. transformed_parameters N beta x a county' = Inr y_hat \<and>
           length y_hat = nat N \<and>
           (\<forall>i. 1 \<le> i \<and> i \<le> N \<longrightarrow>
              (\<exists>xi ci aci. stan_index x i = Inr xi \<and> stan_index county' i = Inr ci \<and>
                 stan_index a ci = Inr aci \<and>
                 stan_index y_hat i = Inr (fadd (fmul beta xi) aci)))"
proof -
  let ?yh = "map (\<lambda>k. fadd (fmul beta (x ! k)) (a ! nat (county' ! k - 1))) [0..<nat N]"
  have "for_each [1..int (nat N)] (y_hat_step beta x a county') (replicate (nat N) NaN) =
      Inr (?yh @ replicate (nat N - nat N) NaN)"
    using assms by (intro y_hat_loop) simp_all
  then have run: "transformed_parameters N beta x a county' = Inr ?yh"
    using assms(1) by (simp add: transformed_parameters_def)
  have "\<exists>xi ci aci. stan_index x i = Inr xi \<and> stan_index county' i = Inr ci \<and>
           stan_index a ci = Inr aci \<and> stan_index ?yh i = Inr (fadd (fmul beta xi) aci)"
    if "1 \<le> i \<and> i \<le> N" for i
  proof -
    have k: "nat (i - 1) < nat N"
      using that by linarith
    then have "county' ! nat (i - 1) \<in> set county'"
      using assms(3) by simp
    then have "1 \<le> county' ! nat (i - 1) \<and> county' ! nat (i - 1) \<le> int (length a)"
      using assms(4) by blast
    then show ?thesis
      using that k assms(2,3) by (simp add: stan_index_def)
  qed
  with run show ?thesis
    by simp
qed

theorem y_hat_is_affine_witness:
  "transformed_parameters 2 (Finite 2) [Finite 1, Finite 0] [Finite 10, Finite 20] [2, 1]
     = Inr [Finite 22, Finite 10] \<and>
   stan_index [Finite 22, Finite 10] 1 = Inr (fadd (fmul (Finite 2) (Finite 1)) (Finite 20)) \<and>
   stan_index [Finite 10, Finite 20 :: float64] 2 = Inr (Finite 20) \<and>
   stan_index [2, 1 :: int] 1 = Inr 2"
proof -
  have "[1..2::int] = [1, 2]"
    by (simp add: upto.simps)
  then show ?thesis
    using y_hat_is_affine [of 2 "[Finite 1, Finite 0]" "[2, 1]" "[Finite 10, Finite 20]"
        "Finite 2"]
    by (simp add: transformed_parameters_def y_hat_step_def stan_index_def stan_assign_def
        numeral_2_eq_2)
qed

section \<open>The order of the counties\<close>

text \<open>The sort by insertion returns an order that \<open>sorted_by_value\<close> allows.\<close>

lemma mset_insert_entry: "mset (insert_entry e s) = add_mset e (mset s)"
  by (induction s) simp_all

lemma mset_insertion_sort: "mset (insertion_sort s) = mset s"
  by (induction s) (simp_all add: insertion_sort_def mset_insert_entry)

lemma set_insert_entry: "set (insert_entry e s) = insert e (set s)"
  using mset_insert_entry [of e s] by (metis set_mset_add_mset_insert set_mset_mset)

lemma le64_Nan_right: "le64 a Nan = False"
  by (cases a) simp_all

lemma nan_last_le_total: "nan_last_le a b \<or> nan_last_le b a"
  by (cases a; cases b) (auto simp: nan_last_le_def)

lemma nan_last_le_trans: "nan_last_le a b \<Longrightarrow> nan_last_le b c \<Longrightarrow> nan_last_le a c"
  by (cases a; cases b; cases c) (auto simp: nan_last_le_def)

lemma sorted_insert_entry:
  assumes "sorted_wrt (\<lambda>d e. nan_last_le (snd d) (snd e)) s"
  shows "sorted_wrt (\<lambda>d e. nan_last_le (snd d) (snd e)) (insert_entry e s)"
  using assms
proof (induction s)
  case Nil
  show ?case by simp
next
  case (Cons d ds)
  show ?case
  proof (cases "nan_last_le (snd e) (snd d)")
    case True
    with Cons.prems show ?thesis
      by (auto intro: nan_last_le_trans)
  next
    case False
    then have "nan_last_le (snd d) (snd e)"
      using nan_last_le_total by blast
    with False Cons show ?thesis
      by (auto simp: set_insert_entry)
  qed
qed

lemma insertion_sort_sorted_by_value: "sorted_by_value s (insertion_sort s)"
proof -
  have "sorted_wrt (\<lambda>d e. nan_last_le (snd d) (snd e)) (insertion_sort s)"
  proof (induction s)
    case Nil
    show ?case by (simp add: insertion_sort_def)
  next
    case (Cons e s)
    then show ?case
      using sorted_insert_entry [of "insertion_sort s" e] by (simp add: insertion_sort_def)
  qed
  then show ?thesis
    by (simp add: sorted_by_value_def mset_insertion_sort)
qed

text \<open>Without a \<open>Nan\<close>, the order by value with \<open>Nan\<close> last is the order of \<^verbatim>\<open><=\<close>.\<close>

lemma sorted_values_no_nan:
  assumes "sorted_by_value s t" and "Nan \<notin> snd ` set s"
  shows "sorted_wrt le64 (series_values t)"
proof -
  have t: "set t = set s"
    using assms(1) by (metis sorted_by_value_def mset_eq_setD)
  have "sorted_wrt (\<lambda>d e. le64 (snd d) (snd e)) t"
  proof (rule sorted_wrt_mono_rel)
    show "sorted_wrt (\<lambda>d e. nan_last_le (snd d) (snd e)) t"
      using assms(1) by (simp add: sorted_by_value_def)
  next
    fix d e
    assume "d \<in> set t" "e \<in> set t" and le: "nan_last_le (snd d) (snd e)"
    then have "snd e \<noteq> Nan"
      using assms(2) t by (metis image_eqI)
    with le show "le64 (snd d) (snd e)"
      by (simp add: nan_last_le_def)
  qed
  then show ?thesis
    by (simp add: series_values_def sorted_wrt_map)
qed

text \<open>Under labels that are all different, a label finds its one entry.\<close>

lemma filter_label_unique:
  assumes "distinct (map fst s)" and "d \<in> set s"
  shows "filter (\<lambda>e. fst e = fst d) s = [d]"
  using assms
proof (induction s)
  case Nil
  then show ?case by simp
next
  case (Cons c s)
  show ?case
  proof (cases "c = d")
    case True
    have "fst d \<notin> fst ` set s"
      using Cons.prems(1) True by simp
    then have "\<forall>e \<in> set s. fst e \<noteq> fst d"
      by (metis imageI)
    then have "filter (\<lambda>e. fst e = fst d) s = []"
      by (simp add: filter_empty_conv)
    with True show ?thesis by simp
  next
    case False
    with Cons.prems have "d \<in> set s" "fst c \<noteq> fst d"
      by force+
    with Cons show ?thesis by simp
  qed
qed

lemma series_getitem_own_entries:
  assumes "distinct (map fst s)" and "set t \<subseteq> set s"
  shows "(series_getitem s (map fst t) :: 'x exn + series) = Inr t"
  using assms(2)
proof (induction t)
  case Nil
  show ?case by simp
next
  case (Cons d t)
  then have "filter (\<lambda>e. fst e = fst d) s = [d]"
    using assms(1) by (simp add: filter_label_unique)
  with Cons show ?case by simp
qed

lemma series_getitem_labels:
  assumes "distinct (map fst s)" and "set ls \<subseteq> fst ` set s"
  shows "\<exists>t. (series_getitem s ls :: 'x exn + series) = Inr t \<and> map fst t = ls \<and>
           set t \<subseteq> set s"
  using assms(2)
proof (induction ls)
  case Nil
  show ?case by simp
next
  case (Cons l ls)
  then obtain d where d: "d \<in> set s" "fst d = l"
    by auto
  then have "filter (\<lambda>e. fst e = l) s = [d]"
    using assms(1) filter_label_unique by blast
  moreover obtain t where "(series_getitem s ls :: 'x exn + series) = Inr t" "map fst t = ls"
      "set t \<subseteq> set s"
    using Cons by auto
  ultimately show ?case
    using d by simp
qed

text \<open>
  Whatever the labels of the series are: the entries found under a label that is asked
  for stand together in the result, and every label asked for brings at least one entry.
\<close>

lemma series_getitem_chunk:
  assumes "(series_getitem s ls :: 'x exn + series) = Inr ms" and "l \<in> set ls"
  shows "\<exists>pre post. ms = pre @ filter (\<lambda>e. fst e = l) s @ post"
  using assms
proof (induction ls arbitrary: ms)
  case Nil
  then show ?case by simp
next
  case (Cons l' ls)
  from Cons.prems(1) obtain d ds rest
    where f: "filter (\<lambda>e. fst e = l') s = d # ds"
      and r: "(series_getitem s ls :: 'x exn + series) = Inr rest"
      and ms: "ms = (d # ds) @ rest"
    by (auto split: list.splits simp: and_then_Inr_iff)
  show ?case
  proof (cases "l = l'")
    case True
    then have "ms = [] @ filter (\<lambda>e. fst e = l) s @ rest"
      using f ms by simp
    then show ?thesis by blast
  next
    case False
    then have "l \<in> set ls"
      using Cons.prems(2) by simp
    then obtain pre post where "rest = pre @ filter (\<lambda>e. fst e = l) s @ post"
      using Cons.IH r by blast
    then have "ms = ((d # ds) @ pre) @ filter (\<lambda>e. fst e = l) s @ post"
      using ms by simp
    then show ?thesis by blast
  qed
qed

lemma series_getitem_length:
  assumes "(series_getitem s ls :: 'x exn + series) = Inr ms"
  shows "length ls \<le> length ms"
  using assms
proof (induction ls arbitrary: ms)
  case Nil
  then show ?case by simp
next
  case (Cons l ls)
  from Cons.prems obtain d ds rest
    where "(series_getitem s ls :: 'x exn + series) = Inr rest" and "ms = (d # ds) @ rest"
    by (auto split: list.splits simp: and_then_Inr_iff)
  with Cons.IH show ?case by fastforce
qed

lemma repeated_name_not_sorted:
  assumes "mset t = mset repeated_name_estimates"
      and "(series_getitem repeated_name_estimates (series_index t) :: 'x exn + series) = Inr ms"
  shows "\<not> sorted_wrt le64 (series_values ms)"
proof
  assume sorted: "sorted_wrt le64 (series_values ms)"
  have "(''AITKIN'', double_of_int 3) \<in> set t"
    using assms(1) by (metis mset_eq_setD list.set_intros(1) repeated_name_estimates_def)
  then have "''AITKIN'' \<in> set (series_index t)"
    by (force simp: series_index_def)
  then obtain pre post
    where "ms = pre @ filter (\<lambda>e. fst e = ''AITKIN'') repeated_name_estimates @ post"
    using series_getitem_chunk [OF assms(2)] by blast
  then have "series_values ms =
      map snd pre @ [double_of_int 3, double_of_int 2] @ map snd post"
    by (simp add: series_values_def repeated_name_estimates_def)
  with sorted have "le64 (double_of_int 3) (double_of_int 2)"
    by (simp add: sorted_wrt_append)
  then show False
    by (simp add: double_of_int_def fin64_of_int.rep_eq)
qed

lemma nan_estimate_not_sorted:
  assumes "mset t = mset nan_estimates"
      and "(series_getitem nan_estimates (series_index t) :: 'x exn + series) = Inr ms"
  shows "\<not> sorted_wrt le64 (series_values ms)"
proof
  assume sorted: "sorted_wrt le64 (series_values ms)"
  have "(''AITKIN'', Nan) \<in> set t"
    using assms(1) by (metis mset_eq_setD list.set_intros(1) nan_estimates_def)
  then have "''AITKIN'' \<in> set (series_index t)"
    by (force simp: series_index_def)
  then obtain pre post
    where ms: "ms = pre @ filter (\<lambda>e. fst e = ''AITKIN'') nan_estimates @ post"
    using series_getitem_chunk [OF assms(2)] by blast
  then have vals: "series_values ms = map snd pre @ [Nan] @ map snd post"
    by (simp add: series_values_def nan_estimates_def)
  have "length t = 2"
    using assms(1) by (metis size_mset length_Cons list.size(3) nan_estimates_def
        numeral_2_eq_2)
  then have "2 \<le> length ms"
    using series_getitem_length [OF assms(2)] by (simp add: series_index_def)
  then have "pre \<noteq> [] \<or> post \<noteq> []"
    using ms by (auto simp: nan_estimates_def)
  moreover from sorted vals have "sorted_wrt le64 (map snd pre @ [Nan] @ map snd post)"
    by simp
  then have "pre = [] \<and> post = []"
    by (auto simp: sorted_wrt_append le64_Nan_right)
  ultimately show False
    by simp
qed




end
